theory Spec2Isabelle
  imports Complex_Main "HOL-Library.AList"
begin

section \<open>Request validation helpers (backend/routes/postRoutes.js)\<close>

text \<open>
  Route parameters are strings. \<open>validateMongoId\<close> is the regular expression
  \<open>/^[0-9a-fA-F]{24}$/\<close>; \<open>objectId\<close> is the 96-bit value the ORM casts such a
  string to, so that two spellings of one identifier (upper or lower case) denote the same
  document, as \<open>findById\<close> and the \<open>toString()\<close> comparisons of the source have it.
\<close>

definition isHexDigit :: "char \<Rightarrow> bool" where
  "isHexDigit c = (c \<in> set ''0123456789abcdefABCDEF'')"

definition validateMongoId :: "string \<Rightarrow> bool" where
  "validateMongoId i = (length i = 24 \<and> list_all isHexDigit i)"

definition hexValue :: "char \<Rightarrow> nat" where
  "hexValue c =
     (let n = (of_char c :: nat)
      in if 48 \<le> n \<and> n \<le> 57 then n - 48
         else if 97 \<le> n \<and> n \<le> 102 then n - 87
         else n - 55)"

definition objectId :: "string \<Rightarrow> nat" where
  "objectId s = foldl (\<lambda>a c. 16 * a + hexValue c) 0 s"

text \<open>
  A string is a sequence of code units below 256. \<open>isSpace\<close> holds of the white space
  and line terminators that \<open>String.prototype.trim\<close> strips in that range: tab, line
  feed, vertical tab, form feed, carriage return, space and the no-break space U+00A0.
\<close>

definition isSpace :: "char \<Rightarrow> bool" where
  "isSpace c =
     (c \<in> set [CHR '' '', CHR 0x09, CHR 0x0A, CHR 0x0B, CHR 0x0C, CHR 0x0D, CHR 0xA0])"

definition trim :: "string \<Rightarrow> string" where
  "trim s = rev (dropWhile isSpace (rev (dropWhile isSpace s)))"

text \<open>
  \<open>validateText(text, min, max)\<close> is \<open>text && text.trim().length >= min &&
  text.trim().length <= max\<close>; an absent text and the empty string are falsy. The
  default \<open>max\<close> is 1000.
\<close>

definition validateText :: "string option \<Rightarrow> nat \<Rightarrow> nat \<Rightarrow> bool" where
  "validateText text mn mx =
     (case text of
        None \<Rightarrow> False
      | Some t \<Rightarrow> t \<noteq> [] \<and> mn \<le> length (trim t) \<and> length (trim t) \<le> mx)"

definition validTypes :: "string list" where
  "validTypes = [''confession'', ''event'', ''culturalEvent'', ''news'', ''showcase'']"

definition validatePostType :: "string \<Rightarrow> bool" where
  "validatePostType t = (t \<in> set validTypes)"

section \<open>Responses\<close>

text \<open>
  \<open>Json code payload\<close> is \<open>res.status(code).json(payload)\<close> on a success path;
  \<open>Message code text\<close> is a response whose body is only a message.

  A handler that sets a status and then throws (\<open>res.status(400); throw new Error(..)\<close>)
  hands the error to the application's error middleware (backend/server.js), the only one
  the application installs. It answers every error with
  \<open>res.status(500).json({message: 'Internal Server Error', ..})\<close>, whatever status the
  handler had set before throwing.
\<close>

datatype 'a response = Json nat 'a | Message nat string

definition throwError :: "nat \<Rightarrow> string \<Rightarrow> 'a response" where
  "throwError statusSet err = Message 500 ''Internal Server Error''"

fun statusOf :: "'a response \<Rightarrow> nat" where
  "statusOf (Json c _) = c"
| "statusOf (Message c _) = c"

section \<open>Stored documents (backend/models/Post.js, Notification, User)\<close>

datatype avatar = AvatarObject string string | AvatarString string

record user =
  u_id :: nat
  u_name :: string
  u_avatar :: "avatar option"
  isAdmin :: bool

record comment =
  c_author :: string
  c_authorAvatar :: string
  c_text :: string
  c_timestamp :: int
  c_userId :: nat

record showcaseComment =
  sc_id :: nat
  sc_user :: nat
  sc_text :: string
  sc_timestamp :: int
  sc_author :: string
  sc_authorAvatar :: string

text \<open>
  The typed projection of a stored Post document on the paths the engagement, listing and
  deletion handlers read and write. \<open>likes\<close> is a schema \<open>Number\<close> without any
  validator, so a stored post may hold any number there, a fraction too (the update
  handler passes a \<open>likes\<close> of the request body on to the document); it is a
  rational. The other counters are taken as integers.
\<close>

record post =
  p_id :: nat
  ptype :: string
  title :: string
  userId :: nat
  timestamp :: int
  status :: string
  likes :: rat
  likedBy :: "nat list"
  comments :: int
  commentData :: "comment list"
  upvotes :: int
  upvoters :: "nat list"
  showcaseComments :: "showcaseComment list"
  commentCount :: int
  views :: int

record ticketSelection =
  ts_ticketType :: "string option"
  ts_ticketPrice :: "int option"
  ts_quantity :: "int option"

datatype jsval = JNull | JBool bool | JNum int | JStr string | JDate int | JOid nat
  | JArr "jsval list" | JObj "(string \<times> jsval) list"

record registration =
  r_eventId :: nat
  r_userId :: nat
  r_name :: string
  r_email :: string
  r_phone :: "string option"
  r_transactionId :: "string option"
  r_customFields :: "(string \<times> jsval) list"
  r_bookingDates :: "string list"
  r_selectedTickets :: "ticketSelection list"
  r_totalPrice :: "int option"
  r_createdAt :: int

text \<open>
  A Notification as a handler builds it. The schema requires \<open>recipient\<close> and
  \<open>message\<close> (at most 500 characters after trimming) and restricts \<open>type\<close> to an
  enumeration; keys that are no schema path (such as \<open>user\<close>) are dropped.
\<close>

record notification =
  n_recipient :: "nat option"
  n_message :: string
  n_type :: string
  n_postId :: "nat option"
  n_relatedPost :: "nat option"
  n_relatedUser :: "nat option"
  n_reporter :: "nat option"

record db =
  posts :: "post list"
  registrations :: "registration list"
  notifications :: "notification list"
  users :: "user list"

definition notificationTypes :: "string list" where
  "notificationTypes =
     [''warning'', ''success'', ''info'', ''report'', ''registration'', ''like'', ''comment'',
      ''showcase_upvote'', ''showcase_comment'', ''showcase_featured'', ''showcase_approved'',
      ''showcase_system'', ''showcase_bookmark'', ''showcase_new_idea'', ''showcase_winner'']"

definition validNotification :: "notification \<Rightarrow> bool" where
  "validNotification n =
     (n_recipient n \<noteq> None \<and> trim (n_message n) \<noteq> [] \<and> length (trim (n_message n)) \<le> 500
      \<and> n_type n \<in> set notificationTypes)"

text \<open>\<open>notification.save()\<close>: \<open>None\<close> is the validation error it throws.\<close>

definition saveNotification :: "notification \<Rightarrow> db \<Rightarrow> db option" where
  "saveNotification n d =
     (if validNotification n then Some (d\<lparr>notifications := notifications d @ [n]\<rparr>) else None)"

definition findById :: "post list \<Rightarrow> nat \<Rightarrow> post option" where
  "findById ps i = find (\<lambda>p. p_id p = i) ps"

definition findUser :: "user list \<Rightarrow> nat \<Rightarrow> user option" where
  "findUser us i = find (\<lambda>u. u_id u = i) us"

subsection \<open>Saving a post: validation, the pre-save hook, the write\<close>

text \<open>
  \<open>post.save()\<close> validates the modified paths first (\<open>upvotes\<close> and
  \<open>commentCount\<close> have \<open>min: 0\<close>; a showcase comment requires \<open>text\<close>, trimmed
  by the schema's setter, non-empty and of at most 1000 characters, and \<open>author\<close>), then
  runs the schema's pre-save hook, which recomputes the comment counters of modified
  comment arrays, then writes the document.
\<close>

definition validShowcaseComment :: "showcaseComment \<Rightarrow> bool" where
  "validShowcaseComment c =
     (trim (sc_text c) \<noteq> [] \<and> length (trim (sc_text c)) \<le> 1000 \<and> sc_author c \<noteq> [])"

definition validModified :: "string list \<Rightarrow> post \<Rightarrow> bool" where
  "validModified modified p =
     ((''upvotes'' \<in> set modified \<longrightarrow> 0 \<le> upvotes p)
      \<and> (''commentCount'' \<in> set modified \<longrightarrow> 0 \<le> commentCount p)
      \<and> (''showcaseComments'' \<in> set modified \<longrightarrow> list_all validShowcaseComment (showcaseComments p)))"

definition preSave :: "string list \<Rightarrow> post \<Rightarrow> post" where
  "preSave modified p =
     (let p1 = (if ''commentData'' \<in> set modified
                then p\<lparr>comments := int (length (commentData p))\<rparr> else p)
      in if ''showcaseComments'' \<in> set modified
         then p1\<lparr>commentCount := int (length (showcaseComments p1))\<rparr> else p1)"

definition writePost :: "post \<Rightarrow> post list \<Rightarrow> post list" where
  "writePost p ps = map (\<lambda>q. if p_id q = p_id p then p else q) ps"

definition savePost :: "string list \<Rightarrow> post \<Rightarrow> db \<Rightarrow> (post \<times> db) option" where
  "savePost modified p d =
     (if validModified modified p
      then (let p' = preSave modified p in Some (p', d\<lparr>posts := writePost p' (posts d)\<rparr>))
      else None)"

section \<open>Engagement handlers (backend/routes/postRoutes.js)\<close>

subsection \<open>PUT /api/posts/:id/like and /unlike\<close>

definition likeHandler :: "db \<Rightarrow> user \<Rightarrow> string \<Rightarrow> (rat \<times> nat list) response \<times> db" where
  "likeHandler d u idParam =
     (if \<not> validateMongoId idParam then (Message 400 ''Invalid post ID'', d)
      else case findById (posts d) (objectId idParam) of
        None \<Rightarrow> (Message 404 ''Post not found'', d)
      | Some p \<Rightarrow>
          if u_id u \<in> set (likedBy p)
          then (Message 400 ''You have already liked this post'', d)
          else (let p1 = p\<lparr>likes := likes p + 1, likedBy := likedBy p @ [u_id u]\<rparr>
                in case savePost [''likes'', ''likedBy''] p1 d of
                     None \<Rightarrow> (throwError 200 ''ValidationError'', d)
                   | Some (p2, d') \<Rightarrow> (Json 200 (likes p2, likedBy p2), d')))"

definition unlikeHandler :: "db \<Rightarrow> user \<Rightarrow> string \<Rightarrow> (rat \<times> nat list) response \<times> db" where
  "unlikeHandler d u idParam =
     (if \<not> validateMongoId idParam then (Message 400 ''Invalid post ID'', d)
      else case findById (posts d) (objectId idParam) of
        None \<Rightarrow> (Message 404 ''Post not found'', d)
      | Some p \<Rightarrow>
          if u_id u \<notin> set (likedBy p)
          then (Message 400 ''You have not liked this post'', d)
          else (let p0 = (if likes p > 0 then p\<lparr>likes := likes p - 1\<rparr> else p);
                    p1 = p0\<lparr>likedBy := filter (\<lambda>x. x \<noteq> u_id u) (likedBy p0)\<rparr>
                in case savePost [''likes'', ''likedBy''] p1 d of
                     None \<Rightarrow> (throwError 200 ''ValidationError'', d)
                   | Some (p2, d') \<Rightarrow> (Json 200 (likes p2, likedBy p2), d')))"

subsection \<open>PUT /api/posts/:id/upvote\<close>

text \<open>
  The notification the handler builds on an upvote names its recipient under the key
  \<open>user\<close> and has type \<open>'upvote'\<close>; its \<open>save()\<close> is inside a \<open>try\<close> whose
  \<open>catch\<close> only logs, so a failed notification leaves the upvote in place.
\<close>

definition upvoteNotification :: "user \<Rightarrow> post \<Rightarrow> notification" where
  "upvoteNotification u p =
     \<lparr>n_recipient = None,
      n_message = u_name u @ '' upvoted your startup idea \"'' @ title p @ ''\"'',
      n_type = ''upvote'', n_postId = None, n_relatedPost = Some (p_id p),
      n_relatedUser = Some (u_id u), n_reporter = None\<rparr>"

definition upvoteHandler ::
  "db \<Rightarrow> user \<Rightarrow> string \<Rightarrow> (int \<times> nat list \<times> bool \<times> nat) response \<times> db" where
  "upvoteHandler d u idParam =
     (if \<not> validateMongoId idParam then (Message 400 ''Invalid post ID'', d)
      else case findById (posts d) (objectId idParam) of
        None \<Rightarrow> (Message 404 ''Post not found'', d)
      | Some p \<Rightarrow>
          if ptype p \<noteq> ''showcase''
          then (Message 400 ''Only showcase posts can be upvoted'', d)
          else if userId p = u_id u
          then (Message 400 ''You cannot upvote your own post'', d)
          else
            (let hasUpvoted = list_ex (\<lambda>x. x = u_id u) (upvoters p);
                 p1 = (if hasUpvoted
                       then p\<lparr>upvotes := max 0 (upvotes p - 1),
                              upvoters := filter (\<lambda>x. x \<noteq> u_id u) (upvoters p)\<rparr>
                       else p\<lparr>upvotes := upvotes p + 1, upvoters := upvoters p @ [u_id u]\<rparr>);
                 d1 = (if hasUpvoted then d
                       else (case saveNotification (upvoteNotification u p) d of
                               None \<Rightarrow> d | Some d' \<Rightarrow> d'))
             in case savePost [''upvotes'', ''upvoters''] p1 d1 of
                  None \<Rightarrow> (Message 500 ''Failed to save upvote'', d1)
                | Some (p2, d2) \<Rightarrow>
                    (Json 200 (upvotes p2, upvoters p2, \<not> hasUpvoted, p_id p2), d2)))"

subsection \<open>POST /api/posts/:id/showcase-comments\<close>

definition placeholderAvatar :: string where
  "placeholderAvatar = ''https://placehold.co/40x40/cccccc/000000?text=A''"

definition getAvatarUrl :: "avatar option \<Rightarrow> string" where
  "getAvatarUrl a =
     (case a of
        None \<Rightarrow> placeholderAvatar
      | Some (AvatarObject url publicId) \<Rightarrow> if url \<noteq> [] then url else placeholderAvatar
      | Some (AvatarString s) \<Rightarrow> if s \<noteq> [] then s else placeholderAvatar)"

definition commentNotification :: "user \<Rightarrow> post \<Rightarrow> notification" where
  "commentNotification u p =
     \<lparr>n_recipient = None,
      n_message = u_name u @ '' commented on your startup idea \"'' @ title p @ ''\"'',
      n_type = ''comment'', n_postId = None, n_relatedPost = Some (p_id p),
      n_relatedUser = Some (u_id u), n_reporter = None\<rparr>"

text \<open>
  \<open>now\<close> is the clock reading and \<open>newId\<close> the identifier the ORM gives the new
  embedded comment. The response carries the new comment and the comment count.
\<close>

definition showcaseCommentHandler ::
  "int \<Rightarrow> nat \<Rightarrow> db \<Rightarrow> user \<Rightarrow> string \<Rightarrow> string option
     \<Rightarrow> (showcaseComment \<times> int) response \<times> db" where
  "showcaseCommentHandler now newId d u idParam text =
     (if \<not> validateMongoId idParam then (Message 400 ''Invalid post ID'', d)
      else if \<not> validateText text 1 1000
      then (Message 400 ''Comment must be between 1 and 1000 characters'', d)
      else case findById (posts d) (objectId idParam) of
        None \<Rightarrow> (Message 404 ''Post not found'', d)
      | Some p \<Rightarrow>
          if ptype p \<noteq> ''showcase''
          then (Message 400 ''Only showcase posts can use this comment endpoint'', d)
          else
            (let c = \<lparr>sc_id = newId, sc_user = u_id u, sc_text = trim (the text),
                      sc_timestamp = now, sc_author = u_name u,
                      sc_authorAvatar = getAvatarUrl (u_avatar u)\<rparr>;
                 p1 = p\<lparr>showcaseComments := showcaseComments p @ [c]\<rparr>;
                 p2 = p1\<lparr>commentCount := int (length (showcaseComments p1))\<rparr>
             in case savePost [''showcaseComments'', ''commentCount''] p2 d of
                  None \<Rightarrow> (Message 500 ''Failed to save comment'', d)
                | Some (p3, d1) \<Rightarrow>
                    (let d2 = (if userId p3 \<noteq> u_id u
                               then (case saveNotification (commentNotification u p3) d1 of
                                       None \<Rightarrow> d1 | Some d' \<Rightarrow> d')
                               else d1)
                     in (Json 201 (c, commentCount p3), d2))))"

subsection \<open>Showcase methods of the Post model (backend/models/Post.js)\<close>

text \<open>
  Each method changes the document and saves it; \<open>None\<close> is a rejected save. A method
  that finds nothing to do resolves with the document as it is. A comment pushed onto
  \<open>showcaseComments\<close> is cast to the embedded schema, whose setter trims its text.
\<close>

fun removeFirst :: "('a \<Rightarrow> bool) \<Rightarrow> 'a list \<Rightarrow> 'a list" where
  "removeFirst P [] = []"
| "removeFirst P (x # xs) = (if P x then xs else x # removeFirst P xs)"

definition addUpvote :: "nat \<Rightarrow> post \<Rightarrow> db \<Rightarrow> (post \<times> db) option" where
  "addUpvote uid p d =
     (if uid \<notin> set (upvoters p)
      then savePost [''upvoters'', ''upvotes'']
             (p\<lparr>upvoters := upvoters p @ [uid], upvotes := upvotes p + 1\<rparr>) d
      else Some (p, d))"

definition removeUpvote :: "nat \<Rightarrow> post \<Rightarrow> db \<Rightarrow> (post \<times> db) option" where
  "removeUpvote uid p d =
     (if list_ex (\<lambda>x. x = uid) (upvoters p)
      then savePost [''upvoters'', ''upvotes'']
             (p\<lparr>upvoters := removeFirst (\<lambda>x. x = uid) (upvoters p),
                upvotes := max 0 (upvotes p - 1)\<rparr>) d
      else Some (p, d))"

definition hasUpvoted :: "nat \<Rightarrow> post \<Rightarrow> bool" where
  "hasUpvoted uid p = list_ex (\<lambda>x. x = uid) (upvoters p)"

definition addShowcaseComment :: "showcaseComment \<Rightarrow> post \<Rightarrow> db \<Rightarrow> (post \<times> db) option" where
  "addShowcaseComment c p d =
     (let p1 = p\<lparr>showcaseComments := showcaseComments p @ [c\<lparr>sc_text := trim (sc_text c)\<rparr>]\<rparr>
      in savePost [''showcaseComments'', ''commentCount'']
           (p1\<lparr>commentCount := int (length (showcaseComments p1))\<rparr>) d)"

definition removeShowcaseComment :: "nat \<Rightarrow> post \<Rightarrow> db \<Rightarrow> (post \<times> db) option" where
  "removeShowcaseComment commentId p d =
     (if list_ex (\<lambda>c. sc_id c = commentId) (showcaseComments p)
      then savePost [''showcaseComments'', ''commentCount'']
             (p\<lparr>showcaseComments := removeFirst (\<lambda>c. sc_id c = commentId) (showcaseComments p),
                commentCount := max 0 (commentCount p - 1)\<rparr>) d
      else Some (p, d))"

subsection \<open>Sequences of engagement operations\<close>

text \<open>
  A request is a call of one of the engagement routes, or of one of the model's showcase
  methods on the post with the given identifier. \<open>step\<close> is the database after it;
  a rejected request leaves the database as its handler returns it.
\<close>

datatype request =
    Like user string
  | Unlike user string
  | Upvote user string
  | ShowcaseComment int nat user string "string option"
  | CallAddUpvote nat nat
  | CallRemoveUpvote nat nat
  | CallAddShowcaseComment nat showcaseComment
  | CallRemoveShowcaseComment nat nat

definition callMethod :: "(post \<Rightarrow> db \<Rightarrow> (post \<times> db) option) \<Rightarrow> nat \<Rightarrow> db \<Rightarrow> db" where
  "callMethod m postId d =
     (case findById (posts d) postId of
        None \<Rightarrow> d
      | Some p \<Rightarrow> (case m p d of None \<Rightarrow> d | Some (p', d') \<Rightarrow> d'))"

fun step :: "db \<Rightarrow> request \<Rightarrow> db" where
  "step d (Like u i) = snd (likeHandler d u i)"
| "step d (Unlike u i) = snd (unlikeHandler d u i)"
| "step d (Upvote u i) = snd (upvoteHandler d u i)"
| "step d (ShowcaseComment now newId u i text) = snd (showcaseCommentHandler now newId d u i text)"
| "step d (CallAddUpvote postId uid) = callMethod (addUpvote uid) postId d"
| "step d (CallRemoveUpvote postId uid) = callMethod (removeUpvote uid) postId d"
| "step d (CallAddShowcaseComment postId c) = callMethod (addShowcaseComment c) postId d"
| "step d (CallRemoveShowcaseComment postId cid) = callMethod (removeShowcaseComment cid) postId d"

definition countersNonNegative :: "db \<Rightarrow> bool" where
  "countersNonNegative d =
     (\<forall>p \<in> set (posts d). 0 \<le> likes p \<and> 0 \<le> upvotes p \<and> 0 \<le> commentCount p)"

text \<open>
  The same for posts whose \<open>likes\<close> is a whole number, as it is on a post whose likes
  were only ever changed by the like and unlike routes since its creation.
\<close>

definition wholeNonNegative :: "post \<Rightarrow> bool" where
  "wholeNonNegative p =
     (likes p \<in> \<int> \<and> 0 \<le> likes p \<and> 0 \<le> upvotes p \<and> 0 \<le> commentCount p)"

definition countersWhole :: "db \<Rightarrow> bool" where
  "countersWhole d = (\<forall>p \<in> set (posts d). wholeNonNegative p)"

section \<open>Event registration and export (user routes)\<close>

subsection \<open>POST /api/users/register-event/:eventId\<close>

text \<open>
  The request body, as the handler destructures it: the named fields, and every other key
  of the body as the registration's custom fields.
\<close>

record registrationBody =
  rb_name :: "string option"
  rb_email :: "string option"
  rb_phone :: "string option"
  rb_transactionId :: "string option"
  rb_bookingDates :: "string list option"
  rb_selectedTickets :: "ticketSelection list option"
  rb_totalPrice :: "int option"
  rb_customFields :: "(string \<times> jsval) list"

definition findRegistration :: "registration list \<Rightarrow> nat \<Rightarrow> nat \<Rightarrow> registration option" where
  "findRegistration rs eventId uid = find (\<lambda>r. r_eventId r = eventId \<and> r_userId r = uid) rs"

definition orEmpty :: "'a list option \<Rightarrow> 'a list" where
  "orEmpty xs = (case xs of None \<Rightarrow> [] | Some ys \<Rightarrow> ys)"

definition registrationNotification :: "user \<Rightarrow> user \<Rightarrow> post \<Rightarrow> notification" where
  "registrationNotification creator u event =
     \<lparr>n_recipient = Some (u_id creator),
      n_message = u_name u @ '' has registered for your event \"'' @ title event @ ''\"!'',
      n_type = ''registration'', n_postId = Some (p_id event), n_relatedPost = None,
      n_relatedUser = None, n_reporter = None\<rparr>"

definition registerEvent ::
  "int \<Rightarrow> db \<Rightarrow> user \<Rightarrow> string \<Rightarrow> registrationBody \<Rightarrow> registration response \<times> db" where
  "registerEvent now d u eventIdParam body =
     (if \<not> validateMongoId eventIdParam then (Message 400 ''Invalid event ID format'', d)
      else case findById (posts d) (objectId eventIdParam) of
        None \<Rightarrow> (throwError 404 ''Event not found'', d)
      | Some event \<Rightarrow>
          (case findRegistration (registrations d) (objectId eventIdParam) (u_id u) of
             Some existing \<Rightarrow> (throwError 400 ''You are already registered for this event'', d)
           | None \<Rightarrow>
               if rb_name body = None \<or> rb_name body = Some [] \<or> rb_email body = None
                  \<or> rb_email body = Some []
               then (Message 400 ''Name and email are required'', d)
               else
                 (let newRegistration =
                        \<lparr>r_eventId = objectId eventIdParam, r_userId = u_id u,
                         r_name = the (rb_name body), r_email = the (rb_email body),
                         r_phone = rb_phone body, r_transactionId = rb_transactionId body,
                         r_customFields = rb_customFields body,
                         r_bookingDates = orEmpty (rb_bookingDates body),
                         r_selectedTickets = orEmpty (rb_selectedTickets body),
                         r_totalPrice = rb_totalPrice body, r_createdAt = now\<rparr>;
                      d1 = d\<lparr>registrations := registrations d @ [newRegistration]\<rparr>
                  in case findUser (users d1) (userId event) of
                       None \<Rightarrow> (Json 201 newRegistration, d1)
                     | Some creator \<Rightarrow>
                         (case saveNotification (registrationNotification creator u event) d1 of
                            None \<Rightarrow> (throwError 200 ''ValidationError'', d1)
                          | Some d2 \<Rightarrow> (Json 201 newRegistration, d2)))))"

subsection \<open>GET /api/users/export-registrations/:eventId\<close>

text \<open>
  A row is a JavaScript object: an association list in key order. \<open>a || b\<close> on values
  follows JavaScript truthiness. The handler hands the header list and the rows to the CSV
  formatter, which writes one line per row; the model returns both.
\<close>

type_synonym row = "(string \<times> jsval) list"

fun truthy :: "jsval \<Rightarrow> bool" where
  "truthy JNull = False"
| "truthy (JBool b) = b"
| "truthy (JNum n) = (n \<noteq> 0)"
| "truthy (JStr s) = (s \<noteq> [])"
| "truthy _ = True"

definition orElse :: "jsval option \<Rightarrow> jsval \<Rightarrow> jsval" where
  "orElse v dflt = (case v of None \<Rightarrow> dflt | Some x \<Rightarrow> if truthy x then x else dflt)"

fun joinWith :: "string \<Rightarrow> string list \<Rightarrow> string" where
  "joinWith sep [] = []"
| "joinWith sep [x] = x"
| "joinWith sep (x # y # ys) = x @ sep @ joinWith sep (y # ys)"

definition fixedHeaders :: "string list" where
  "fixedHeaders = [''Name'', ''Email'', ''Phone'', ''Transaction ID'', ''Registered At'',
     ''Booking Dates'', ''Total Price'', ''Ticket Type'', ''Ticket Quantity'', ''Ticket Price'']"

text \<open>\<open>headers.add(key)\<close> on a \<open>Set\<close>, which keeps insertion order.\<close>

definition addHeader :: "string list \<Rightarrow> string \<Rightarrow> string list" where
  "addHeader hs k = (if k \<in> set hs then hs else hs @ [k])"

definition baseData :: "registration \<Rightarrow> row" where
  "baseData reg =
     foldl (\<lambda>acc (k, v). AList.update k (orElse (Some v) (JStr [])) acc)
       [(''Name'', JStr (r_name reg)),
        (''Email'', JStr (r_email reg)),
        (''Phone'', orElse (map_option JStr (r_phone reg)) (JStr [])),
        (''Transaction ID'', orElse (map_option JStr (r_transactionId reg)) (JStr [])),
        (''Registered At'', JDate (r_createdAt reg)),
        (''Booking Dates'', JStr (joinWith '', '' (r_bookingDates reg))),
        (''Total Price'', orElse (map_option JNum (r_totalPrice reg)) (JStr []))]
       (r_customFields reg)"

definition ticketRow :: "row \<Rightarrow> ticketSelection \<Rightarrow> row" where
  "ticketRow base ticket =
     AList.update ''Ticket Price'' (orElse (map_option JNum (ts_ticketPrice ticket)) (JStr []))
       (AList.update ''Ticket Quantity'' (orElse (map_option JNum (ts_quantity ticket)) (JStr []))
         (AList.update ''Ticket Type'' (orElse (map_option JStr (ts_ticketType ticket)) (JStr []))
           base))"

definition emptyTicketRow :: "row \<Rightarrow> row" where
  "emptyTicketRow base =
     AList.update ''Ticket Price'' (JStr [])
       (AList.update ''Ticket Quantity'' (JStr [])
         (AList.update ''Ticket Type'' (JStr []) base))"

definition registrationRows :: "string \<Rightarrow> registration \<Rightarrow> row list" where
  "registrationRows eventType reg =
     (if eventType = ''culturalEvent'' \<and> r_selectedTickets reg \<noteq> []
      then map (ticketRow (baseData reg)) (r_selectedTickets reg)
      else [emptyTicketRow (baseData reg)])"

definition exportHeaders :: "registration list \<Rightarrow> string list" where
  "exportHeaders regs =
     foldl (\<lambda>hs reg. foldl addHeader hs (map fst (r_customFields reg))) fixedHeaders regs"

definition flattenedData :: "string \<Rightarrow> registration list \<Rightarrow> row list" where
  "flattenedData eventType regs = concat (map (registrationRows eventType) regs)"

definition eventRegistrations :: "db \<Rightarrow> string \<Rightarrow> registration list" where
  "eventRegistrations d i = filter (\<lambda>r. r_eventId r = objectId i) (registrations d)"

definition exportRegistrations ::
  "db \<Rightarrow> user \<Rightarrow> string \<Rightarrow> (string list \<times> row list) response" where
  "exportRegistrations d u eventIdParam =
     (if \<not> validateMongoId eventIdParam then Message 400 ''Invalid event ID format''
      else case findById (posts d) (objectId eventIdParam) of
        None \<Rightarrow> Message 404 ''Event not found.''
      | Some event \<Rightarrow>
          if userId event \<noteq> u_id u \<and> \<not> isAdmin u
          then Message 403 ''Not authorized to export this data.''
          else
            (let regs = eventRegistrations d eventIdParam
             in if length regs = 0 then Message 404 ''No registrations found for this event.''
                else Json 200 (exportHeaders regs, flattenedData (ptype event) regs)))"

section \<open>Deleting posts\<close>

text \<open>
  Both handlers first remove the post's hosted images from the object store, a best-effort
  call outside the database; the model starts at the database writes.
\<close>

subsection \<open>DELETE /api/posts/:id (backend/routes/postRoutes.js)\<close>

definition deletePost :: "db \<Rightarrow> user \<Rightarrow> string \<Rightarrow> unit response \<times> db" where
  "deletePost d u idParam =
     (if \<not> validateMongoId idParam then (Message 400 ''Invalid post ID'', d)
      else case findById (posts d) (objectId idParam) of
        None \<Rightarrow> (Message 404 ''Post not found'', d)
      | Some p \<Rightarrow>
          if userId p \<noteq> u_id u \<and> \<not> isAdmin u
          then (Message 403 ''You are not authorized to delete this post'', d)
          else
            (let d1 = d\<lparr>posts := filter (\<lambda>q. p_id q \<noteq> p_id p) (posts d)\<rparr>;
                 d2 = (if ptype p = ''event'' \<or> ptype p = ''culturalEvent''
                       then d1\<lparr>registrations :=
                                 filter (\<lambda>r. r_eventId r \<noteq> p_id p) (registrations d1)\<rparr>
                       else d1)
             in (Message 200 ''Post removed'', d2)))"

subsection \<open>DELETE /api/users/admin/delete-post/:id (user routes)\<close>

text \<open>The \<open>admin\<close> middleware in front of the handler sets 403 and throws for other users.\<close>

definition adminDeletePost :: "db \<Rightarrow> user \<Rightarrow> string \<Rightarrow> unit response \<times> db" where
  "adminDeletePost d u idParam =
     (if \<not> isAdmin u then (throwError 403 ''Not authorized as an administrator'', d)
      else if \<not> validateMongoId idParam then (Message 400 ''Invalid post ID format'', d)
      else case findById (posts d) (objectId idParam) of
        None \<Rightarrow> (Message 404 ''Post not found'', d)
      | Some p \<Rightarrow>
          (let d1 = d\<lparr>posts := filter (\<lambda>q. p_id q \<noteq> p_id p) (posts d)\<rparr>;
               d2 = d1\<lparr>notifications :=
                         filter (\<lambda>n. n_postId n \<noteq> Some (objectId idParam)) (notifications d1)\<rparr>;
               d3 = d2\<lparr>registrations :=
                         filter (\<lambda>r. r_eventId r \<noteq> objectId idParam) (registrations d2)\<rparr>
           in (Message 200 ''Post and associated data removed'', d3)))"

section \<open>GET /api/posts (backend/routes/postRoutes.js)\<close>

text \<open>
  \<open>splitOn\<close> is \<open>String.prototype.split\<close> with a one-character separator.
  \<open>jwtVerify\<close> stands for the token library with the server's secret: the user
  identifier a token decodes to, or \<open>None\<close> when verification throws.
\<close>

fun splitOn :: "char \<Rightarrow> string \<Rightarrow> string list" where
  "splitOn c [] = [[]]"
| "splitOn c (x # xs) =
     (if x = c then [] # splitOn c xs
      else (case splitOn c xs of [] \<Rightarrow> [[x]] | w # ws \<Rightarrow> (x # w) # ws))"

definition bearerToken :: "string \<Rightarrow> string option" where
  "bearerToken h = (let parts = splitOn CHR '' '' h
                    in if 1 < length parts then Some (parts ! 1) else None)"

definition requestIsAdmin :: "(string option \<Rightarrow> nat option) \<Rightarrow> db \<Rightarrow> string option \<Rightarrow> bool" where
  "requestIsAdmin jwtVerify d authorization =
     (case authorization of
        None \<Rightarrow> False
      | Some h \<Rightarrow>
          if h \<noteq> [] \<and> take 6 h = ''Bearer''
          then (case jwtVerify (bearerToken h) of
                  None \<Rightarrow> False
                | Some i \<Rightarrow> (case findUser (users d) i of
                               None \<Rightarrow> False
                             | Some u \<Rightarrow> isAdmin u))
          else False)"

datatype commentsField = CommentsCount int | CommentsArray "showcaseComment list"

definition transformShowcasePostForFrontend :: "post \<Rightarrow> post \<times> commentsField" where
  "transformShowcasePostForFrontend p =
     (if ptype p \<noteq> ''showcase'' then (p, CommentsCount (comments p))
      else (p\<lparr>commentCount := (if commentCount p \<noteq> 0 then commentCount p
                                else int (length (showcaseComments p)))\<rparr>,
            CommentsArray (showcaseComments p)))"

definition getPosts ::
  "(string option \<Rightarrow> nat option) \<Rightarrow> db \<Rightarrow> string option \<Rightarrow> (post \<times> commentsField) list" where
  "getPosts jwtVerify d authorization =
     (let found = (if requestIsAdmin jwtVerify d authorization
                   then sort_key (\<lambda>p. - timestamp p) (posts d)
                   else sort_key (\<lambda>p. - timestamp p)
                          (filter (\<lambda>p. status p = ''approved'') (posts d)))
      in map transformShowcasePostForFrontend found)"

section \<open>Creating and updating posts (backend/routes/postRoutes.js)\<close>

text \<open>
  The create and update handlers build the post as a JavaScript object, key by key, and
  hand it to the ORM. The model keeps that form: an object is a map from keys to values,
  and a key whose value is \<open>undefined\<close> is an absent key. \<open>assign\<close> is a run of
  property assignments in source order, \<open>clear\<close> a run of assignments of
  \<open>undefined\<close>.
\<close>

type_synonym obj = "string \<Rightarrow> jsval option"

definition assign :: "obj \<Rightarrow> (string \<times> jsval option) list \<Rightarrow> obj" where
  "assign m kvs = foldl (\<lambda>acc (k, v). acc(k := v)) m kvs"

definition clear :: "string list \<Rightarrow> obj \<Rightarrow> obj" where
  "clear ks m = foldl (\<lambda>acc k. acc(k := None)) m ks"

record ticketOption =
  ticketType :: "string option"
  ticketPrice :: "int option"

datatype images = ImageArray "string list" | ImageString string

text \<open>
  The request body. The keys the handlers destructure by name are fields at the types the
  schema declares for them; \<open>b_other\<close> holds every other key of the JSON body.
\<close>

record postBody =
  b_type :: "string option"
  b_title :: "string option"
  b_content :: "string option"
  b_images :: "images option"
  b_status :: "string option"
  b_paymentMethod :: "string option"
  b_ticketOptions :: "ticketOption list option"
  b_culturalPaymentMethod :: "string option"
  b_availableDates :: "string list option"
  b_paymentQRCode :: "string option"
  b_culturalPaymentQRCode :: "string option"
  b_other :: obj

definition namedKeys :: "string list" where
  "namedKeys = [''type'', ''title'', ''content'', ''images'', ''status'', ''paymentMethod'',
     ''ticketOptions'', ''culturalPaymentMethod'', ''availableDates'', ''paymentQRCode'',
     ''culturalPaymentQRCode'']"

definition otherKeys :: "postBody \<Rightarrow> obj" where
  "otherKeys body = (\<lambda>k. if k \<in> set namedKeys then None else b_other body k)"

definition ticketJson :: "ticketOption \<Rightarrow> jsval" where
  "ticketJson t =
     JObj ((case ticketType t of None \<Rightarrow> [] | Some s \<Rightarrow> [(''ticketType'', JStr s)])
           @ (case ticketPrice t of None \<Rightarrow> [] | Some n \<Rightarrow> [(''ticketPrice'', JNum n)]))"

definition ticketsJson :: "ticketOption list \<Rightarrow> jsval" where
  "ticketsJson ts = JArr (map ticketJson ts)"

definition datesJson :: "string list \<Rightarrow> jsval" where
  "datesJson ds = JArr (map JStr ds)"

definition falsy :: "string option \<Rightarrow> bool" where
  "falsy s = (s = None \<or> s = Some [])"

text \<open>
  What the handlers read from their surroundings: the clock, the server's time zone (the
  minutes local time is behind UTC), the object store's upload (\<open>None\<close> when it
  fails), the two locale-formatted date labels, and the identifier of a new document.
\<close>

record env =
  currentTime :: int
  timezoneOffset :: int
  cloudinaryUpload :: "string \<Rightarrow> string option"
  monthYear :: string
  localDate :: string
  freshId :: nat

definition uploadImage :: "env \<Rightarrow> string \<Rightarrow> string option" where
  "uploadImage e img = (if img = [] then None else cloudinaryUpload e img)"

text \<open>
  \<open>new Date('2025-10-31T23:59:59').getTime()\<close>: a date-time without offset is local
  time; 1761955199000 is that instant in UTC.
\<close>

definition SUBMISSION_DEADLINE :: "env \<Rightarrow> int" where
  "SUBMISSION_DEADLINE e = 1761955199000 + timezoneOffset e * 60000"

definition deadlineMessage :: string where
  "deadlineMessage =
     ''Submissions are closed for Startup Showcase. The deadline was October 31, 2025.''"

subsection \<open>Schema validation on save (backend/models/Post.js)\<close>

text \<open>
  The validators the Post schema declares: required paths, enumerations, maximal lengths
  (after the \<open>trim\<close> setter), minima, and the two required paths of a ticket option.
  \<open>null\<close> passes every validator but \<open>required\<close>. A value whose JSON type is not
  the declared one is counted as a cast error; the ORM would first try to coerce it.
\<close>

definition requiredText :: "obj \<Rightarrow> string \<Rightarrow> bool" where
  "requiredText m k = (case m k of Some (JStr s) \<Rightarrow> trim s \<noteq> [] | _ \<Rightarrow> False)"

definition enumOk :: "string list \<Rightarrow> obj \<Rightarrow> string \<Rightarrow> bool" where
  "enumOk allowed m k =
     (case m k of None \<Rightarrow> True | Some JNull \<Rightarrow> True | Some (JStr s) \<Rightarrow> s \<in> set allowed
      | _ \<Rightarrow> False)"

definition maxLengthOk :: "nat \<Rightarrow> obj \<Rightarrow> string \<Rightarrow> bool" where
  "maxLengthOk n m k =
     (case m k of None \<Rightarrow> True | Some JNull \<Rightarrow> True | Some (JStr s) \<Rightarrow> length (trim s) \<le> n
      | _ \<Rightarrow> False)"

definition minZeroOk :: "obj \<Rightarrow> string \<Rightarrow> bool" where
  "minZeroOk m k =
     (case m k of None \<Rightarrow> True | Some JNull \<Rightarrow> True | Some (JNum n) \<Rightarrow> 0 \<le> n | _ \<Rightarrow> False)"

definition ticketOk :: "jsval \<Rightarrow> bool" where
  "ticketOk t =
     (case t of
        JObj kvs \<Rightarrow>
          (case map_of kvs ''ticketType'' of Some (JStr s) \<Rightarrow> s \<noteq> [] | _ \<Rightarrow> False)
          \<and> (case map_of kvs ''ticketPrice'' of Some (JNum n) \<Rightarrow> 0 \<le> n | _ \<Rightarrow> False)
      | _ \<Rightarrow> False)"

definition ticketOptionsOk :: "obj \<Rightarrow> bool" where
  "ticketOptionsOk m =
     (case m ''ticketOptions'' of None \<Rightarrow> True | Some (JArr ts) \<Rightarrow> list_all ticketOk ts
      | _ \<Rightarrow> False)"

definition validPostData :: "obj \<Rightarrow> bool" where
  "validPostData m =
     (requiredText m ''type'' \<and> enumOk validTypes m ''type''
      \<and> requiredText m ''title'' \<and> maxLengthOk 100 m ''title''
      \<and> requiredText m ''content''
      \<and> requiredText m ''author''
      \<and> (case m ''userId'' of Some (JOid i) \<Rightarrow> True | _ \<Rightarrow> False)
      \<and> enumOk [''pending'', ''approved'', ''rejected''] m ''status''
      \<and> enumOk [''link'', ''qr''] m ''paymentMethod''
      \<and> enumOk [''link'', ''qr'', ''qr-screenshot''] m ''culturalPaymentMethod''
      \<and> ticketOptionsOk m
      \<and> maxLengthOk 200 m ''description'' \<and> maxLengthOk 5000 m ''fullDescription''
      \<and> minZeroOk m ''upvotes'' \<and> minZeroOk m ''commentCount'')"

subsection \<open>POST /api/posts\<close>

text \<open>
  \<open>restOfPostData\<close>: the body without the keys the create handler destructures; the
  body's \<open>status\<close> is among the rest.
\<close>

definition restOfPostData :: "postBody \<Rightarrow> obj" where
  "restOfPostData body = (otherKeys body)(''status'' := map_option JStr (b_status body))"

definition uploadedImages :: "env \<Rightarrow> images option \<Rightarrow> string option list" where
  "uploadedImages e imgs =
     (case imgs of
        None \<Rightarrow> []
      | Some (ImageArray xs) \<Rightarrow> if xs \<noteq> [] then map (uploadImage e) xs else []
      | Some (ImageString x) \<Rightarrow> if x \<noteq> [] then [uploadImage e x] else [])"

definition imagesJson :: "string option list \<Rightarrow> jsval" where
  "imagesJson urls = JArr (map (\<lambda>u. JStr (the u)) (filter (\<lambda>u. u \<noteq> None) urls))"

definition createQrCode :: "env \<Rightarrow> string \<Rightarrow> postBody \<Rightarrow> string option" where
  "createQrCode e t body =
     (if t = ''event'' \<and> \<not> falsy (b_paymentQRCode body)
      then uploadImage e (the (b_paymentQRCode body))
      else if t = ''culturalEvent'' \<and> \<not> falsy (b_culturalPaymentQRCode body)
      then uploadImage e (the (b_culturalPaymentQRCode body))
      else None)"

text \<open>\<open>['link', 'qr'].includes(paymentMethod) ? paymentMethod : undefined\<close>\<close>

definition validPaymentMethod :: "string option \<Rightarrow> jsval option" where
  "validPaymentMethod pm =
     (case pm of None \<Rightarrow> None
      | Some x \<Rightarrow> if x \<in> set [''link'', ''qr''] then Some (JStr x) else None)"

definition newPostData :: "env \<Rightarrow> user \<Rightarrow> postBody \<Rightarrow> obj" where
  "newPostData e u body =
     (let t = the (b_type body);
          rest = restOfPostData body;
          qrCodeUrl = createQrCode e t body;
          d0 = assign rest
                 [(''title'', map_option JStr (b_title body)),
                  (''content'', map_option JStr (b_content body)),
                  (''images'', Some (imagesJson (uploadedImages e (b_images body)))),
                  (''type'', Some (JStr t)),
                  (''author'', Some (JStr (u_name u))),
                  (''authorAvatar'', Some (JStr (getAvatarUrl (u_avatar u)))),
                  (''userId'', Some (JOid (u_id u))),
                  (''status'', Some (JStr (if t = ''event'' \<or> t = ''culturalEvent''
                                           then ''pending'' else ''approved''))),
                  (''likes'', Some (JNum 0)),
                  (''likedBy'', Some (JArr [])),
                  (''commentData'', Some (JArr [])),
                  (''timestamp'', Some (JDate (currentTime e)))];
          d1 = (if t = ''showcase''
                then assign d0
                       [(''upvotes'', Some (JNum 0)),
                        (''upvoters'', Some (JArr [])),
                        (''comments'', Some (JNum 0)),
                        (''commentCount'', Some (JNum 0)),
                        (''showcaseComments'', Some (JArr [])),
                        (''month'', Some (orElse (rest ''month'') (JStr (monthYear e)))),
                        (''launchedDate'',
                           Some (orElse (rest ''launchedDate'') (JStr (localDate e)))),
                        (''status'', Some (JStr ''approved'')),
                        (''views'', Some (JNum 0))]
                else d0)
      in if t = ''event'' then
           clear [''ticketOptions'', ''culturalPaymentMethod'', ''culturalPaymentLink'',
                  ''culturalPaymentQRCode'', ''availableDates'']
             (assign d1
                [(''paymentQRCode'', (if falsy qrCodeUrl then d1 ''paymentQRCode''
                                      else map_option JStr qrCodeUrl)),
                 (''paymentMethod'', validPaymentMethod (b_paymentMethod body))])
         else if t = ''culturalEvent'' then
           clear [''price'', ''paymentMethod'', ''paymentLink'', ''paymentQRCode'']
             (assign d1
                [(''culturalPaymentQRCode'',
                    (if falsy qrCodeUrl then d1 ''culturalPaymentQRCode''
                     else map_option JStr qrCodeUrl)),
                 (''ticketOptions'', map_option ticketsJson (b_ticketOptions body)),
                 (''culturalPaymentMethod'', map_option JStr (b_culturalPaymentMethod body)),
                 (''availableDates'', map_option datesJson (b_availableDates body))])
         else if t = ''showcase'' then
           clear [''location'', ''eventStartDate'', ''eventEndDate'', ''price'', ''language'',
                  ''duration'', ''registrationLink'', ''registrationOpen'',
                  ''enableRegistrationForm'', ''registrationFields'', ''paymentMethod'',
                  ''paymentLink'', ''paymentQRCode'', ''source'', ''ticketOptions'',
                  ''culturalPaymentMethod'', ''culturalPaymentLink'',
                  ''culturalPaymentQRCode'', ''availableDates''] d1
         else
           clear [''location'', ''eventStartDate'', ''eventEndDate'', ''price'', ''language'',
                  ''duration'', ''registrationLink'', ''registrationOpen'',
                  ''enableRegistrationForm'', ''registrationFields'', ''paymentMethod'',
                  ''paymentLink'', ''paymentQRCode'', ''source'', ''ticketOptions'',
                  ''culturalPaymentMethod'', ''culturalPaymentLink'',
                  ''culturalPaymentQRCode'', ''availableDates''] d1)"

text \<open>
  \<open>new Post(newPostData)\<close> and \<open>save()\<close>. The constructor fills every path that
  the data leaves \<open>undefined\<close> and for which the schema has a default with that
  default: the \<open>default:\<close> declarations of the schema, and the empty array that every
  array path has. The document is validated, gets an identifier unless the data carries
  one, and is stored; the response shows the stored document.
\<close>

definition postDefaults :: "env \<Rightarrow> (string \<times> jsval) list" where
  "postDefaults e =
     [(''images'', JArr []),
      (''authorAvatar'', JStr placeholderAvatar),
      (''timestamp'', JDate (currentTime e)),
      (''likes'', JNum 0),
      (''likedBy'', JArr []),
      (''comments'', JNum 0),
      (''commentData'', JArr []),
      (''status'', JStr ''approved''),
      (''price'', JNum 0),
      (''registrationOpen'', JBool True),
      (''enableRegistrationForm'', JBool False),
      (''ticketOptions'', JArr []),
      (''availableDates'', JArr []),
      (''launchedDate'', JStr ''Coming Soon''),
      (''upvotes'', JNum 0),
      (''upvoters'', JArr []),
      (''showcaseComments'', JArr []),
      (''commentCount'', JNum 0),
      (''views'', JNum 0)]"

definition defaultOf :: "env \<Rightarrow> string \<Rightarrow> jsval option" where
  "defaultOf e k = map_of (postDefaults e) k"

definition applyDefaults :: "env \<Rightarrow> obj \<Rightarrow> obj" where
  "applyDefaults e m = (\<lambda>k. case m k of None \<Rightarrow> defaultOf e k | Some v \<Rightarrow> Some v)"

definition withId :: "env \<Rightarrow> obj \<Rightarrow> obj" where
  "withId e m = (if m ''_id'' = None then m(''_id'' := Some (JOid (freshId e))) else m)"

definition createPost :: "env \<Rightarrow> user \<Rightarrow> postBody \<Rightarrow> obj list \<Rightarrow> obj response \<times> obj list" where
  "createPost e u body docs =
     (if falsy (b_type body) \<or> falsy (b_title body) \<or> falsy (b_content body)
      then (Message 400 ''Type, title, and content are required'', docs)
      else if \<not> validatePostType (the (b_type body))
      then (Message 400 ''Invalid post type'', docs)
      else if \<not> validateText (b_title body) 1 100
      then (Message 400 ''Title must be between 1 and 100 characters'', docs)
      else if \<not> validateText (b_content body) 1 1000
      then (Message 400 ''Content is required'', docs)
      else if the (b_type body) = ''showcase'' \<and> currentTime e > SUBMISSION_DEADLINE e
      then (Message 400 deadlineMessage, docs)
      else (let post = applyDefaults e (newPostData e u body)
            in if validPostData post
               then (Json 201 (withId e post), docs @ [withId e post])
               else (Message 400 ''Validation Failed'', docs)))"

subsection \<open>PUT /api/posts/:id\<close>

text \<open>
  \<open>rest\<close>: the body without the keys the update handler destructures; the two QR
  code keys are among the rest.
\<close>

definition updateRest :: "postBody \<Rightarrow> obj" where
  "updateRest body =
     (otherKeys body)
       (''paymentQRCode'' := map_option JStr (b_paymentQRCode body),
        ''culturalPaymentQRCode'' := map_option JStr (b_culturalPaymentQRCode body))"

definition findDoc :: "obj list \<Rightarrow> nat \<Rightarrow> obj option" where
  "findDoc docs i = find (\<lambda>m. m ''_id'' = Some (JOid i)) docs"

definition writeDoc :: "obj \<Rightarrow> obj list \<Rightarrow> obj list" where
  "writeDoc m docs = map (\<lambda>x. if x ''_id'' = m ''_id'' then m else x) docs"

definition updatedImages :: "env \<Rightarrow> images \<Rightarrow> string option list" where
  "updatedImages e imgs =
     (case imgs of
        ImageArray xs \<Rightarrow> map (uploadImage e) xs
      | ImageString x \<Rightarrow> if x \<noteq> [] then [uploadImage e x] else [])"

text \<open>
  The new QR code: \<open>None\<close> is \<open>undefined\<close> (nothing to change), \<open>Some JNull\<close>
  is \<open>null\<close>.
\<close>

definition newQrCode :: "env \<Rightarrow> jsval option \<Rightarrow> jsval option \<Rightarrow> jsval option" where
  "newQrCode e oldQrCodeUrl newQrCodeData =
     (if newQrCodeData \<noteq> None \<and> newQrCodeData \<noteq> oldQrCodeUrl
      then (case newQrCodeData of
              Some (JStr x) \<Rightarrow>
                if x \<noteq> [] then Some (case uploadImage e x of None \<Rightarrow> JNull | Some url \<Rightarrow> JStr url)
                else Some JNull
            | Some v \<Rightarrow> if truthy v then Some JNull else None
            | None \<Rightarrow> None)
      else None)"

text \<open>
  The handler's writes to the loaded post up to the saved status: the new images, the
  QR code bookkeeping, \<open>post.set({..., ...rest})\<close> (whose \<open>post.type\<close> is still the
  stored type), the admin's status, and the new QR code, which goes to the key of the
  post's type after \<open>set\<close>.
\<close>

definition applyUpdate :: "env \<Rightarrow> user \<Rightarrow> postBody \<Rightarrow> obj \<Rightarrow> obj" where
  "applyUpdate e u body post =
     (let rest = updateRest body;
          post1 = (case b_images body of
                     None \<Rightarrow> post
                   | Some imgs \<Rightarrow> post(''images'' := Some (imagesJson (updatedImages e imgs))));
          wasEvent = (post1 ''type'' = Some (JStr ''event''));
          wasCultural = (post1 ''type'' = Some (JStr ''culturalEvent''));
          oldQrCodeUrl = (if wasEvent then post1 ''paymentQRCode''
                          else post1 ''culturalPaymentQRCode'');
          newQrCodeData = (if wasEvent then rest ''paymentQRCode''
                           else rest ''culturalPaymentQRCode'');
          newQrCodeUrl = newQrCode e oldQrCodeUrl newQrCodeData;
          post2 = assign post1
                    [(''type'', (case b_type body of None \<Rightarrow> post1 ''type''
                                 | Some t \<Rightarrow> Some (JStr t))),
                     (''title'', (case b_title body of None \<Rightarrow> post1 ''title''
                                  | Some t \<Rightarrow> Some (JStr t))),
                     (''content'', (case b_content body of None \<Rightarrow> post1 ''content''
                                    | Some c \<Rightarrow> Some (JStr c))),
                     (''paymentMethod'', validPaymentMethod (b_paymentMethod body)),
                     (''ticketOptions'',
                        (if wasCultural then map_option ticketsJson (b_ticketOptions body)
                         else None)),
                     (''culturalPaymentMethod'',
                        (if wasCultural
                         then map_option JStr (b_culturalPaymentMethod body) else None)),
                     (''availableDates'',
                        (if wasCultural then map_option datesJson (b_availableDates body)
                         else None))]
                  ++ rest;
          post3 = (if isAdmin u \<and> b_status body \<noteq> None
                   then post2(''status'' := map_option JStr (b_status body)) else post2)
      in if post3 ''type'' = Some (JStr ''event'') \<and> newQrCodeUrl \<noteq> None
         then post3(''paymentQRCode'' := newQrCodeUrl)
         else if post3 ''type'' = Some (JStr ''culturalEvent'') \<and> newQrCodeUrl \<noteq> None
         then post3(''culturalPaymentQRCode'' := newQrCodeUrl)
         else post3)"

text \<open>The field cleanup that follows, by the post's type.\<close>

definition updateCleanup :: "obj \<Rightarrow> obj" where
  "updateCleanup post =
     (if post ''type'' = Some (JStr ''event'') then
        clear [''culturalPaymentMethod'', ''culturalPaymentLink'',
               ''culturalPaymentQRCode'', ''availableDates''] post
      else if post ''type'' = Some (JStr ''culturalEvent'') then
        clear [''price'', ''paymentMethod'', ''paymentLink'', ''paymentQRCode''] post
      else if post ''type'' = Some (JStr ''showcase'') then
        clear [''location'', ''eventStartDate'', ''eventEndDate'', ''price'',
               ''language'', ''duration'', ''registrationLink'',
               ''registrationOpen'', ''enableRegistrationForm'',
               ''registrationFields'', ''paymentMethod'', ''paymentLink'',
               ''paymentQRCode'', ''source'', ''ticketOptions'',
               ''culturalPaymentMethod'', ''culturalPaymentLink'',
               ''culturalPaymentQRCode'', ''availableDates''] post
      else
        clear [''location'', ''eventStartDate'', ''eventEndDate'', ''price'',
               ''language'', ''duration'', ''registrationLink'',
               ''registrationOpen'', ''enableRegistrationForm'',
               ''registrationFields'', ''paymentMethod'', ''paymentLink'',
               ''paymentQRCode'', ''source'', ''ticketOptions'',
               ''culturalPaymentMethod'', ''culturalPaymentLink'',
               ''culturalPaymentQRCode'', ''availableDates''] post)"

definition updatePost ::
  "env \<Rightarrow> obj list \<Rightarrow> user \<Rightarrow> string \<Rightarrow> postBody \<Rightarrow> obj response \<times> obj list" where
  "updatePost e docs u idParam body =
     (if \<not> validateMongoId idParam then (Message 400 ''Invalid post ID'', docs)
      else case findDoc docs (objectId idParam) of
        None \<Rightarrow> (Message 404 ''Post not found'', docs)
      | Some post \<Rightarrow>
          if post ''userId'' \<noteq> Some (JOid (u_id u)) \<and> \<not> isAdmin u
          then (Message 403 ''You are not authorized to update this post'', docs)
          else if \<not> falsy (b_type body) \<and> \<not> validatePostType (the (b_type body))
          then (Message 400 ''Invalid post type'', docs)
          else if \<not> falsy (b_title body) \<and> \<not> validateText (b_title body) 1 100
          then (Message 400 ''Title must be between 1 and 100 characters'', docs)
          else if \<not> falsy (b_content body) \<and> \<not> validateText (b_content body) 1 1000
          then (Message 400 ''Content is required'', docs)
          else
            (let updated = updateCleanup (applyUpdate e u body post)
             in if validPostData updated
                then (Json 200 updated, writeDoc updated docs)
                else (Message 400 ''Validation Failed during update'', docs)))"

section \<open>The specification's own measures\<close>

text \<open>
  The number of (registration, selected ticket) pairs of a list of registrations, and the
  number of rows of an export response.
\<close>

definition ticketPairs :: "registration list \<Rightarrow> nat" where
  "ticketPairs regs = sum_list (map (\<lambda>r. length (r_selectedTickets r)) regs)"

definition rowCount :: "(string list \<times> row list) response \<Rightarrow> nat option" where
  "rowCount r = (case r of Json c (hs, rows) \<Rightarrow> Some (length rows) | Message c m \<Rightarrow> None)"

text \<open>
  A request carries a valid token of an admin user when the token in its authorization
  header verifies and decodes to a stored user whose \<open>isAdmin\<close> flag is set.
\<close>

definition validAdminToken :: "(string option \<Rightarrow> nat option) \<Rightarrow> db \<Rightarrow> string option \<Rightarrow> bool" where
  "validAdminToken jwtVerify d authorization =
     (case authorization of
        None \<Rightarrow> False
      | Some h \<Rightarrow> (case jwtVerify (bearerToken h) of
                     None \<Rightarrow> False
                   | Some i \<Rightarrow> (case findUser (users d) i of
                                  None \<Rightarrow> False
                                | Some u \<Rightarrow> isAdmin u)))"






definition responseField :: "obj response \<Rightarrow> string \<Rightarrow> jsval option" where
  "responseField r k = (case r of Json c m \<Rightarrow> m k | Message c t \<Rightarrow> None)"

section \<open>Sample data\<close>

definition owner :: user where
  "owner = \<lparr>u_id = 1, u_name = ''Asha'', u_avatar = None, isAdmin = False\<rparr>"

definition visitor :: user where
  "visitor = \<lparr>u_id = 2, u_name = ''Ravi'', u_avatar = None, isAdmin = False\<rparr>"

definition showcasePost :: post where
  "showcasePost = \<lparr>p_id = 101, ptype = ''showcase'', title = ''Solar kettle'', userId = 1,
     timestamp = 1000, status = ''approved'', likes = 1, likedBy = [2], comments = 0,
     commentData = [], upvotes = 0, upvoters = [], showcaseComments = [], commentCount = 0,
     views = 0\<rparr>"

definition showcaseId :: string where
  "showcaseId = ''000000000000000000000065''"

definition sampleDb :: db where
  "sampleDb = \<lparr>posts = [showcasePost], registrations = [], notifications = [],
     users = [owner, visitor]\<rparr>"
definition eventPost :: post where
  "eventPost = \<lparr>p_id = 102, ptype = ''event'', title = ''Robotics night'', userId = 1,
     timestamp = 2000, status = ''pending'', likes = 0, likedBy = [], comments = 0,
     commentData = [], upvotes = 0, upvoters = [], showcaseComments = [], commentCount = 0,
     views = 0\<rparr>"

definition eventId :: string where
  "eventId = ''000000000000000000000066''"

definition visitorBody :: registrationBody where
  "visitorBody = \<lparr>rb_name = Some ''Ravi'', rb_email = Some ''ravi@example.org'',
     rb_phone = None, rb_transactionId = None, rb_bookingDates = None,
     rb_selectedTickets = None, rb_totalPrice = None,
     rb_customFields = [(''College'', JStr ''KIIT'')]\<rparr>"

definition visitorRegistration :: registration where
  "visitorRegistration = \<lparr>r_eventId = 102, r_userId = 2, r_name = ''Ravi'',
     r_email = ''ravi@example.org'', r_phone = None, r_transactionId = None,
     r_customFields = [(''College'', JStr ''KIIT'')], r_bookingDates = [],
     r_selectedTickets = [], r_totalPrice = None, r_createdAt = 5000\<rparr>"

definition eventDb :: db where
  "eventDb = \<lparr>posts = [showcasePost, eventPost], registrations = [], notifications = [],
     users = [owner, visitor]\<rparr>"

definition registeredDb :: db where
  "registeredDb = eventDb\<lparr>registrations := [visitorRegistration],
     notifications := [registrationNotification owner visitor eventPost]\<rparr>"

definition culturalPost :: post where
  "culturalPost = \<lparr>p_id = 103, ptype = ''culturalEvent'', title = ''Spring fest'', userId = 1,
     timestamp = 3000, status = ''approved'', likes = 0, likedBy = [], comments = 0,
     commentData = [], upvotes = 0, upvoters = [], showcaseComments = [], commentCount = 0,
     views = 0\<rparr>"

definition culturalId :: string where
  "culturalId = ''000000000000000000000067''"

definition walkIn :: registration where
  "walkIn = \<lparr>r_eventId = 103, r_userId = 2, r_name = ''Ravi'',
     r_email = ''ravi@example.org'', r_phone = None, r_transactionId = None,
     r_customFields = [(''College'', JStr ''KIIT'')], r_bookingDates = [],
     r_selectedTickets = [], r_totalPrice = None, r_createdAt = 5000\<rparr>"

definition culturalDb :: db where
  "culturalDb = \<lparr>posts = [culturalPost], registrations = [walkIn], notifications = [],
     users = [owner, visitor]\<rparr>"

definition sampleEnv :: env where
  "sampleEnv = \<lparr>currentTime = 1761000000000, timezoneOffset = 0,
     cloudinaryUpload = (\<lambda>x. Some ''https://res.cloudinary.com/demo/image/upload/v1/a.png''),
     monthYear = ''October 2025'', localDate = ''20/10/2025'', freshId = 104\<rparr>"

definition lateEnv :: env where
  "lateEnv = sampleEnv\<lparr>currentTime := 1762000000000\<rparr>"

definition emptyBody :: postBody where
  "emptyBody = \<lparr>b_type = None, b_title = None, b_content = None, b_images = None,
     b_status = None, b_paymentMethod = None, b_ticketOptions = None,
     b_culturalPaymentMethod = None, b_availableDates = None, b_paymentQRCode = None,
     b_culturalPaymentQRCode = None, b_other = Map.empty\<rparr>"


definition culturalBody :: postBody where
  "culturalBody = emptyBody\<lparr>b_type := Some ''culturalEvent'', b_title := Some ''Spring fest'',
     b_content := Some ''Music and dance'',
     b_ticketOptions := Some [\<lparr>ticketType = Some ''General'', ticketPrice = Some 100\<rparr>]\<rparr>"

definition datedBody :: postBody where
  "datedBody = culturalBody\<lparr>b_availableDates := Some [''2025-11-20'']\<rparr>"

definition showcaseBody :: postBody where
  "showcaseBody = emptyBody\<lparr>b_type := Some ''showcase'', b_title := Some ''Solar kettle'',
     b_content := Some ''Boils water with sunlight''\<rparr>"


definition confessionDocId :: string where
  "confessionDocId = ''000000000000000000000068''"



definition moderator :: user where
  "moderator = \<lparr>u_id = 3, u_name = ''Meera'', u_avatar = None, isAdmin = True\<rparr>"

definition culturalDoc :: obj where
  "culturalDoc = withId sampleEnv (applyDefaults sampleEnv (newPostData sampleEnv owner datedBody))"

definition toEventBody :: postBody where
  "toEventBody = emptyBody\<lparr>b_type := Some ''event'',
     b_ticketOptions := Some [\<lparr>ticketType = Some ''General'', ticketPrice = Some 100\<rparr>]\<rparr>"

definition halfLikedPost :: post where
  "halfLikedPost = showcasePost\<lparr>likes := 1 / 2\<rparr>"

definition halfLikedDb :: db where
  "halfLikedDb = sampleDb\<lparr>posts := [halfLikedPost]\<rparr>"

section \<open>Verified properties\<close>

subsection \<open>Lookups and writes\<close>

lemma findById_mem: "findById ps i = Some p \<Longrightarrow> p \<in> set ps"
  unfolding findById_def by (induction ps) (auto split: if_splits)

lemma findById_id: "findById ps i = Some p \<Longrightarrow> p_id p = i"
  unfolding findById_def by (induction ps) (auto split: if_splits)


lemma saveNotification_upvote [simp]: "saveNotification (upvoteNotification u p) d = None"
  by (simp add: saveNotification_def validNotification_def upvoteNotification_def)

lemma preSave_counters [simp]:
  "''commentData'' \<notin> set m \<Longrightarrow> ''showcaseComments'' \<notin> set m \<Longrightarrow> preSave m p = p"
  by (simp add: preSave_def)


lemma showcaseId_value: "objectId showcaseId = 101"
  by (simp add: objectId_def showcaseId_def hexValue_def)

lemma showcaseId_valid: "validateMongoId showcaseId"
  by (simp add: validateMongoId_def showcaseId_def isHexDigit_def)

lemma sampleDb_found: "findById (posts sampleDb) (objectId showcaseId) = Some showcasePost"
  by (simp add: showcaseId_value findById_def sampleDb_def showcasePost_def)

subsection \<open>Upvote toggling\<close>



subsection \<open>Guards of like and upvote\<close>

text \<open>
  C7. Liking a post whose \<open>likedBy\<close> already holds the acting user is answered with
  status 400 and the database is returned unchanged; so is upvoting a showcase post that
  the acting user owns.
\<close>

theorem like_twice_and_own_upvote_rejected:
  "(validateMongoId i \<and> findById (posts d) (objectId i) = Some p \<and> u_id u \<in> set (likedBy p)
      \<longrightarrow> likeHandler d u i = (Message 400 ''You have already liked this post'', d))
   \<and> (validateMongoId i \<and> findById (posts d) (objectId i) = Some p \<and> ptype p = ''showcase''
        \<and> userId p = u_id u
      \<longrightarrow> upvoteHandler d u i = (Message 400 ''You cannot upvote your own post'', d))"
  by (simp add: likeHandler_def upvoteHandler_def)

theorem like_twice_and_own_upvote_rejected_witness:
  "u_id visitor \<in> set (likedBy showcasePost) \<and> userId showcasePost = u_id owner
   \<and> likeHandler sampleDb visitor showcaseId
       = (Message 400 ''You have already liked this post'', sampleDb)
   \<and> upvoteHandler sampleDb owner showcaseId
       = (Message 400 ''You cannot upvote your own post'', sampleDb)"
  using like_twice_and_own_upvote_rejected [of showcaseId sampleDb showcasePost visitor]
    like_twice_and_own_upvote_rejected [of showcaseId sampleDb showcasePost owner]
    showcaseId_valid sampleDb_found
  by (simp add: showcasePost_def visitor_def owner_def)

subsection \<open>Counters stay non-negative\<close>

lemma whole_pred: "x \<in> \<int> \<Longrightarrow> 0 < x \<Longrightarrow> x - 1 \<in> \<int> \<and> 0 \<le> x - (1::rat)"
proof -
  assume "x \<in> \<int>" and pos: "0 < x"
  then obtain k where k: "x = of_int k" by (auto elim: Ints_cases)
  with pos have "1 \<le> k" by simp
  then show ?thesis by (simp add: k)
qed

lemma inv_mem: "countersWhole d \<Longrightarrow> p \<in> set (posts d) \<Longrightarrow> wholeNonNegative p"
  by (simp add: countersWhole_def wholeNonNegative_def)

lemma inv_write:
  "countersWhole d \<Longrightarrow> wholeNonNegative p \<Longrightarrow>
   countersWhole (d\<lparr>posts := writePost p (posts d)\<rparr>)"
  by (auto simp: countersWhole_def wholeNonNegative_def writePost_def)

lemma wholeNonNegative_preSave: "wholeNonNegative p \<Longrightarrow> wholeNonNegative (preSave m p)"
  by (simp add: wholeNonNegative_def preSave_def Let_def)

lemma inv_savePost:
  assumes "countersWhole d" "wholeNonNegative p" "savePost m p d = Some (p', d')"
  shows "countersWhole d'"
  using assms
  by (auto simp: savePost_def Let_def inv_write wholeNonNegative_preSave split: if_splits)

lemma inv_saveNotification:
  "countersWhole d \<Longrightarrow> saveNotification n d = Some d' \<Longrightarrow> countersWhole d'"
  by (auto simp: saveNotification_def countersWhole_def split: if_splits)

lemma inv_tryNotification:
  "countersWhole d \<Longrightarrow>
   countersWhole (case saveNotification n d of None \<Rightarrow> d | Some d' \<Rightarrow> d')"
  by (auto split: option.splits dest: inv_saveNotification)

lemma inv_like: "countersWhole d \<Longrightarrow> countersWhole (snd (likeHandler d u i))"
proof -
  assume inv: "countersWhole d"
  show ?thesis
  proof (cases "findById (posts d) (objectId i)")
    case None
    then show ?thesis using inv by (simp add: likeHandler_def)
  next
    case (Some p)
    then have "wholeNonNegative p" using inv by (blast intro: inv_mem findById_mem)
    then have "wholeNonNegative (p\<lparr>likes := likes p + 1, likedBy := likedBy p @ [u_id u]\<rparr>)"
      by (simp add: wholeNonNegative_def)
    then show ?thesis using inv Some
      by (auto simp: likeHandler_def Let_def throwError_def split: option.splits dest: inv_savePost)
  qed
qed

lemma inv_unlike: "countersWhole d \<Longrightarrow> countersWhole (snd (unlikeHandler d u i))"
proof -
  assume inv: "countersWhole d"
  show ?thesis
  proof (cases "findById (posts d) (objectId i)")
    case None
    then show ?thesis using inv by (simp add: unlikeHandler_def)
  next
    case (Some p)
    then have nn: "wholeNonNegative p" using inv by (blast intro: inv_mem findById_mem)
    define p1 where "p1 = (if likes p > 0 then p\<lparr>likes := likes p - 1\<rparr> else p)
            \<lparr>likedBy := filter (\<lambda>x. x \<noteq> u_id u) (likedBy (if likes p > 0 then p\<lparr>likes := likes p - 1\<rparr> else p))\<rparr>"
    have "wholeNonNegative p1"
      using nn whole_pred [of "likes p"] by (simp add: wholeNonNegative_def p1_def)
    then have "countersWhole d'" if "savePost m p1 d = Some (p2, d')" for m p2 d'
      using inv that by (blast intro: inv_savePost)
    then show ?thesis using inv Some
      by (simp add: unlikeHandler_def Let_def throwError_def p1_def [symmetric] split: option.splits)
  qed
qed

lemma inv_upvote: "countersWhole d \<Longrightarrow> countersWhole (snd (upvoteHandler d u i))"
proof -
  assume inv: "countersWhole d"
  show ?thesis
  proof (cases "findById (posts d) (objectId i)")
    case None
    then show ?thesis using inv by (simp add: upvoteHandler_def)
  next
    case (Some p)
    then have nn: "wholeNonNegative p" using inv by (blast intro: inv_mem findById_mem)
    define p1 where "p1 = p\<lparr>upvotes := max 0 (upvotes p - 1),
                upvoters := filter (\<lambda>x. x \<noteq> u_id u) (upvoters p)\<rparr>"
    define p2 where "p2 = p\<lparr>upvotes := upvotes p + 1, upvoters := upvoters p @ [u_id u]\<rparr>"
    have nn1: "wholeNonNegative p1" and nn2: "wholeNonNegative p2"
      using nn by (simp_all add: wholeNonNegative_def p1_def p2_def)
    have s1: "countersWhole d'" if "savePost m p1 d = Some (q, d')" for m q d'
      using inv nn1 that by (rule inv_savePost)
    have s2: "countersWhole d'" if "savePost m p2 d = Some (q, d')" for m q d'
      using inv nn2 that by (rule inv_savePost)
    show ?thesis using inv Some s1 s2
      by (simp add: upvoteHandler_def Let_def p1_def [symmetric] p2_def [symmetric]
            split: option.splits)
  qed
qed

lemma inv_showcaseComment:
  "countersWhole d \<Longrightarrow>
   countersWhole (snd (showcaseCommentHandler now newId d u i text))"
proof -
  assume inv: "countersWhole d"
  show ?thesis
  proof (cases "findById (posts d) (objectId i)")
    case None
    then show ?thesis using inv by (simp add: showcaseCommentHandler_def)
  next
    case (Some p)
    then have nn: "wholeNonNegative p" using inv by (blast intro: inv_mem findById_mem)
    have s: "countersWhole d' \<and>
             countersWhole (case saveNotification n d' of None \<Rightarrow> d' | Some x \<Rightarrow> x)"
      if "savePost m (p\<lparr>showcaseComments := cs, commentCount := 1 + int k\<rparr>) d = Some (q, d')"
      for m q d' n cs k
    proof -
      have "wholeNonNegative (p\<lparr>showcaseComments := cs, commentCount := 1 + int k\<rparr>)"
        using nn by (simp add: wholeNonNegative_def)
      from inv_savePost [OF inv this that] show ?thesis
        by (simp add: inv_tryNotification)
    qed
    show ?thesis
    proof (cases "savePost [''showcaseComments'', ''commentCount'']
                 (p\<lparr>showcaseComments := showcaseComments p @ [\<lparr>sc_id = newId, sc_user = u_id u, sc_text = trim (the text),
                      sc_timestamp = now, sc_author = u_name u,
                      sc_authorAvatar = getAvatarUrl (u_avatar u)\<rparr>],
                      commentCount := 1 + int (length (showcaseComments p))\<rparr>) d")
      case None
      then show ?thesis using inv Some
        by (simp add: showcaseCommentHandler_def Let_def)
    next
      case (Some a)
      obtain q d' where a: "a = (q, d')" by (cases a)
      from s [OF Some [unfolded a]] show ?thesis using inv \<open>findById (posts d) (objectId i) = Some p\<close> Some a
        by (simp add: showcaseCommentHandler_def Let_def split: option.splits)
    qed
  qed
qed

lemma inv_callMethod:
  assumes inv: "countersWhole d"
    and m: "\<And>p p' d'. wholeNonNegative p \<Longrightarrow> m p d = Some (p', d') \<Longrightarrow> countersWhole d'"
  shows "countersWhole (callMethod m postId d)"
proof (cases "findById (posts d) postId")
  case None
  then show ?thesis using inv by (simp add: callMethod_def)
next
  case (Some p)
  then have "wholeNonNegative p" using inv by (blast intro: inv_mem findById_mem)
  then show ?thesis using inv Some m
    by (auto simp: callMethod_def split: option.splits)
qed

lemma inv_addUpvote:
  assumes inv: "countersWhole d" and nn: "wholeNonNegative p"
    and call: "addUpvote uid p d = Some (p', d')"
  shows "countersWhole d'"
proof (cases "uid \<in> set (upvoters p)")
  case True
  then show ?thesis using inv call by (simp add: addUpvote_def)
next
  case False
  have "wholeNonNegative (p\<lparr>upvoters := upvoters p @ [uid], upvotes := upvotes p + 1\<rparr>)"
    using nn by (simp add: wholeNonNegative_def)
  moreover have "savePost [''upvoters'', ''upvotes'']
      (p\<lparr>upvoters := upvoters p @ [uid], upvotes := upvotes p + 1\<rparr>) d = Some (p', d')"
    using False call by (simp add: addUpvote_def)
  ultimately show ?thesis using inv by (blast intro: inv_savePost)
qed

lemma inv_removeUpvote:
  assumes inv: "countersWhole d" and nn: "wholeNonNegative p"
    and call: "removeUpvote uid p d = Some (p', d')"
  shows "countersWhole d'"
proof (cases "list_ex (\<lambda>x. x = uid) (upvoters p)")
  case False
  then show ?thesis using inv call by (simp add: removeUpvote_def)
next
  case True
  have "wholeNonNegative (p\<lparr>upvoters := removeFirst (\<lambda>x. x = uid) (upvoters p),
                upvotes := max 0 (upvotes p - 1)\<rparr>)"
    using nn by (simp add: wholeNonNegative_def)
  moreover have "savePost [''upvoters'', ''upvotes'']
      (p\<lparr>upvoters := removeFirst (\<lambda>x. x = uid) (upvoters p),
         upvotes := max 0 (upvotes p - 1)\<rparr>) d = Some (p', d')"
    using True call by (simp add: removeUpvote_def)
  ultimately show ?thesis using inv by (blast intro: inv_savePost)
qed

lemma inv_addShowcaseComment:
  assumes inv: "countersWhole d" and nn: "wholeNonNegative p"
    and call: "addShowcaseComment c p d = Some (p', d')"
  shows "countersWhole d'"
proof -
  have "wholeNonNegative (p\<lparr>showcaseComments := showcaseComments p @ [c\<lparr>sc_text := trim (sc_text c)\<rparr>],
          commentCount := int (length (showcaseComments p @ [c\<lparr>sc_text := trim (sc_text c)\<rparr>]))\<rparr>)"
    using nn by (simp add: wholeNonNegative_def)
  moreover have "savePost [''showcaseComments'', ''commentCount'']
      (p\<lparr>showcaseComments := showcaseComments p @ [c\<lparr>sc_text := trim (sc_text c)\<rparr>],
          commentCount := int (length (showcaseComments p @ [c\<lparr>sc_text := trim (sc_text c)\<rparr>]))\<rparr>) d = Some (p', d')"
    using call by (simp add: addShowcaseComment_def Let_def)
  ultimately show ?thesis using inv by (blast intro: inv_savePost)
qed

lemma inv_removeShowcaseComment:
  assumes inv: "countersWhole d" and nn: "wholeNonNegative p"
    and call: "removeShowcaseComment cid p d = Some (p', d')"
  shows "countersWhole d'"
proof (cases "list_ex (\<lambda>c. sc_id c = cid) (showcaseComments p)")
  case False
  then show ?thesis using inv call by (simp add: removeShowcaseComment_def)
next
  case True
  have "wholeNonNegative (p\<lparr>showcaseComments := removeFirst (\<lambda>c. sc_id c = cid) (showcaseComments p),
                commentCount := max 0 (commentCount p - 1)\<rparr>)"
    using nn by (simp add: wholeNonNegative_def)
  moreover have "savePost [''showcaseComments'', ''commentCount'']
      (p\<lparr>showcaseComments := removeFirst (\<lambda>c. sc_id c = cid) (showcaseComments p),
         commentCount := max 0 (commentCount p - 1)\<rparr>) d = Some (p', d')"
    using True call by (simp add: removeShowcaseComment_def)
  ultimately show ?thesis using inv by (blast intro: inv_savePost)
qed

lemma inv_step: "countersWhole d \<Longrightarrow> countersWhole (step d r)"
proof (cases r)
  case (CallAddUpvote postId uid)
  assume inv: "countersWhole d"
  show ?thesis unfolding CallAddUpvote step.simps
    by (rule inv_callMethod [OF inv inv_addUpvote [OF inv]])
next
  case (CallRemoveUpvote postId uid)
  assume inv: "countersWhole d"
  show ?thesis unfolding CallRemoveUpvote step.simps
    by (rule inv_callMethod [OF inv inv_removeUpvote [OF inv]])
next
  case (CallAddShowcaseComment postId c)
  assume inv: "countersWhole d"
  show ?thesis unfolding CallAddShowcaseComment step.simps
    by (rule inv_callMethod [OF inv inv_addShowcaseComment [OF inv]])
next
  case (CallRemoveShowcaseComment postId cid)
  assume inv: "countersWhole d"
  show ?thesis unfolding CallRemoveShowcaseComment step.simps
    by (rule inv_callMethod [OF inv inv_removeShowcaseComment [OF inv]])
qed (simp_all add: inv_like inv_unlike inv_upvote inv_showcaseComment)

lemma whole_counters_preserved: "countersWhole d \<Longrightarrow> countersWhole (foldl step d rs)"
  by (induction rs arbitrary: d) (simp_all add: inv_step)

lemma whole_counters_never_negative:
  "countersWhole d \<Longrightarrow> countersNonNegative (foldl step d rs)"
  using whole_counters_preserved [of d rs]
  by (simp add: countersWhole_def countersNonNegative_def wholeNonNegative_def)

lemma halfLikedDb_found:
  "findById (posts halfLikedDb) (objectId showcaseId) = Some halfLikedPost"
  by (simp add: showcaseId_value findById_def halfLikedDb_def halfLikedPost_def
        showcasePost_def)

text \<open>
  C9. The unlike route guards its decrement with \<open>likes > 0\<close>. On a stored post whose
  \<open>likes\<close> is one half and whose \<open>likedBy\<close> holds the acting user, the guard passes
  and the route answers and stores a \<open>likes\<close> of minus one half.
\<close>

theorem unlike_below_zero:
  "likes halfLikedPost = 1 / 2
   \<and> likedBy halfLikedPost = [u_id visitor]
   \<and> unlikeHandler halfLikedDb visitor showcaseId
       = (Json 200 (- (1 / 2), []),
          halfLikedDb\<lparr>posts := [halfLikedPost\<lparr>likes := - (1 / 2), likedBy := []\<rparr>]\<rparr>)"
  using showcaseId_valid halfLikedDb_found
  by (simp add: unlikeHandler_def savePost_def validModified_def writePost_def Let_def
        halfLikedDb_def halfLikedPost_def showcasePost_def visitor_def)

text \<open>
  The counters of that database are non-negative before the request and not after it.
\<close>

lemma unlike_breaks_invariant:
  "countersNonNegative halfLikedDb
   \<and> \<not> countersNonNegative (step halfLikedDb (Unlike visitor showcaseId))"
proof -
  have run: "unlikeHandler halfLikedDb visitor showcaseId
       = (Json 200 (- (1 / 2), []),
          halfLikedDb\<lparr>posts := [halfLikedPost\<lparr>likes := - (1 / 2), likedBy := []\<rparr>]\<rparr>)"
    using showcaseId_valid halfLikedDb_found
    by (simp add: unlikeHandler_def savePost_def validModified_def writePost_def Let_def
          halfLikedDb_def halfLikedPost_def showcasePost_def visitor_def)
  have before: "countersNonNegative halfLikedDb"
    by (simp add: countersNonNegative_def halfLikedDb_def halfLikedPost_def showcasePost_def)
  have after: "\<not> countersNonNegative (step halfLikedDb (Unlike visitor showcaseId))"
    by (simp add: run countersNonNegative_def halfLikedPost_def showcasePost_def)
  from before after show ?thesis by simp
qed

subsection \<open>Sample identifiers\<close>

lemma eventId_value: "objectId eventId = 102"
  by (simp add: objectId_def eventId_def hexValue_def)

lemma eventId_valid: "validateMongoId eventId"
  by (simp add: validateMongoId_def eventId_def isHexDigit_def)

lemma eventDb_found: "findById (posts eventDb) (objectId eventId) = Some eventPost"
  by (simp add: eventId_value findById_def eventDb_def showcasePost_def eventPost_def)

lemma registeredDb_found: "findById (posts registeredDb) (objectId eventId) = Some eventPost"
  using eventDb_found by (simp add: registeredDb_def)

lemma registrationNotification_valid:
  "validNotification (registrationNotification owner visitor eventPost)"
  by (simp add: validNotification_def registrationNotification_def owner_def visitor_def
        eventPost_def notificationTypes_def trim_def isSpace_def)

lemma culturalId_value: "objectId culturalId = 103"
  by (simp add: objectId_def culturalId_def hexValue_def)

lemma culturalId_valid: "validateMongoId culturalId"
  by (simp add: validateMongoId_def culturalId_def isHexDigit_def)

lemma culturalDb_found: "findById (posts culturalDb) (objectId culturalId) = Some culturalPost"
  by (simp add: culturalId_value findById_def culturalDb_def culturalPost_def)

subsection \<open>Registering twice\<close>

lemma first_registration:
  "registerEvent 5000 eventDb visitor eventId visitorBody = (Json 201 visitorRegistration, registeredDb)"
  using eventId_valid eventDb_found registrationNotification_valid
  by (simp add: registerEvent_def eventId_value findRegistration_def eventDb_def visitorBody_def
        visitorRegistration_def registeredDb_def orEmpty_def saveNotification_def
        findUser_def owner_def visitor_def eventPost_def Let_def)

lemma duplicate_registration_not_stored:
  "findRegistration (registrations d) (objectId i) (u_id u) = Some r \<Longrightarrow>
   snd (registerEvent now d u i body) = d \<and> statusOf (fst (registerEvent now d u i body)) \<in> {400, 500}"
  by (simp add: registerEvent_def throwError_def split: option.splits)

text \<open>
  C3. A second registration of the same user for the same event creates no document: the
  handler sets status 400 and throws, and the registrations are left as they were. The
  response the client receives is written by the application's error middleware, which
  answers the thrown error with status 500, not 400.
\<close>

theorem second_registration_answered_500:
  "findRegistration (registrations registeredDb) (objectId eventId) (u_id visitor)
     = Some visitorRegistration
   \<and> registerEvent 6000 registeredDb visitor eventId visitorBody
     = (Message 500 ''Internal Server Error'', registeredDb)"
  using eventId_valid registeredDb_found
  by (simp add: registerEvent_def eventId_value findRegistration_def registeredDb_def
        visitorRegistration_def visitor_def throwError_def)

subsection \<open>Deleting an event\<close>

lemma deletePost_keeps_notifications:
  "notifications (snd (deletePost d u i)) = notifications d"
  by (simp add: deletePost_def Let_def split: option.splits)

lemma deletePost_cascade:
  assumes "validateMongoId i" "findById (posts d) (objectId i) = Some p"
    "userId p = u_id u \<or> isAdmin u" "ptype p = ''event'' \<or> ptype p = ''culturalEvent''"
  shows "\<exists>d'. deletePost d u i = (Message 200 ''Post removed'', d')
     \<and> findById (posts d') (objectId i) = None
     \<and> (\<forall>r \<in> set (registrations d'). r_eventId r \<noteq> objectId i)
     \<and> notifications d' = notifications d"
  using assms findById_id [OF assms(2)]
  by (auto simp: deletePost_def Let_def findById_def find_None_iff)

text \<open>
  C5. Deleting an event through \<open>DELETE /api/posts/:id\<close> removes the post and its
  registrations; the notification that references the post stays in the database.
\<close>

theorem delete_event_keeps_notification:
  "deletePost registeredDb owner eventId
     = (Message 200 ''Post removed'',
        \<lparr>posts = [showcasePost], registrations = [],
         notifications = [registrationNotification owner visitor eventPost],
         users = [owner, visitor]\<rparr>)
   \<and> n_postId (registrationNotification owner visitor eventPost) = Some (objectId eventId)"
  using eventId_valid registeredDb_found
  by (simp add: deletePost_def eventId_value registeredDb_def eventDb_def eventPost_def
        showcasePost_def owner_def visitorRegistration_def registrationNotification_def Let_def)

subsection \<open>Listing posts\<close>

lemma status_transform [simp]: "status (fst (transformShowcasePostForFrontend p)) = status p"
  by (simp add: transformShowcasePostForFrontend_def)

lemma requestIsAdmin_token: "requestIsAdmin j d a \<Longrightarrow> validAdminToken j d a"
  by (auto simp: requestIsAdmin_def validAdminToken_def split: option.splits if_splits)

text \<open>
  C10. A request to \<open>GET /api/posts\<close> that does not carry a valid token of an admin
  user is answered with approved posts only.
\<close>

theorem non_admin_sees_only_approved:
  "\<not> validAdminToken jwtVerify d authorization \<Longrightarrow>
   \<forall>v \<in> set (getPosts jwtVerify d authorization). status (fst v) = ''approved''"
  using requestIsAdmin_token [of jwtVerify d authorization]
  by (auto simp: getPosts_def)

theorem non_admin_sees_only_approved_witness:
  "validAdminToken (\<lambda>t. None) eventDb (Some ''Bearer abc'') = False
   \<and> status eventPost = ''pending''
   \<and> getPosts (\<lambda>t. None) eventDb (Some ''Bearer abc'') = [(showcasePost, CommentsArray [])]
   \<and> status showcasePost = ''approved''"
proof -
  have h: "\<not> validAdminToken (\<lambda>t. None) eventDb (Some ''Bearer abc'')"
    by (simp add: validAdminToken_def)
  have g: "getPosts (\<lambda>t. None) eventDb (Some ''Bearer abc'') = [(showcasePost, CommentsArray [])]"
    by (simp add: getPosts_def requestIsAdmin_def eventDb_def showcasePost_def eventPost_def
          transformShowcasePostForFrontend_def)
  from non_admin_sees_only_approved [OF h] have "status showcasePost = ''approved''"
    unfolding g by simp
  with h g show ?thesis
    by (simp add: eventPost_def)
qed

subsection \<open>Export of registrations\<close>

lemma length_registrationRows:
  "length (registrationRows t r)
     = (if t = ''culturalEvent'' \<and> r_selectedTickets r \<noteq> [] then length (r_selectedTickets r)
        else 1)"
  by (simp add: registrationRows_def)

lemma length_flattenedData:
  "length (flattenedData t regs)
     = (\<Sum>r\<leftarrow>regs. if t = ''culturalEvent'' \<and> r_selectedTickets r \<noteq> []
                   then length (r_selectedTickets r) else 1)"
  by (induction regs) (simp_all add: flattenedData_def length_registrationRows)

lemma set_addHeaders: "set (foldl addHeader hs ks) = set hs \<union> set ks"
  by (induction ks arbitrary: hs) (auto simp: addHeader_def)

lemma set_exportHeaders_from:
  "set (foldl (\<lambda>hs reg. foldl addHeader hs (map fst (r_customFields reg))) hs0 regs)
     = set hs0 \<union> (\<Union>r \<in> set regs. fst ` set (r_customFields r))"
  by (induction regs arbitrary: hs0) (auto simp: set_addHeaders)

lemma set_exportHeaders:
  "set (exportHeaders regs) = set fixedHeaders \<union> (\<Union>r \<in> set regs. fst ` set (r_customFields r))"
  by (simp add: exportHeaders_def set_exportHeaders_from)

lemma rows_plain: "t \<noteq> ''culturalEvent'' \<Longrightarrow> length (flattenedData t regs) = length regs"
  by (induction regs) (simp_all add: flattenedData_def length_registrationRows)

lemma rows_all_ticketed:
  "\<forall>r \<in> set regs. r_selectedTickets r \<noteq> [] \<Longrightarrow>
   length (flattenedData ''culturalEvent'' regs) = ticketPairs regs"
  by (induction regs) (simp_all add: flattenedData_def length_registrationRows ticketPairs_def)

text \<open>
  C4 (as amended). For an event with at least one registration, exported by its owner or
  an admin, the export has one row per selected ticket for every registration of a
  cultural event that selected tickets, and one row for every other registration. So the
  row count is the number of registrations for other event types, and the number of
  (registration, ticket) pairs for a cultural event all of whose registrations selected a
  ticket. The header set is the fixed columns together with every custom-field name of
  the event's registrations.
\<close>

theorem export_rows_and_headers:
  assumes valid: "validateMongoId i"
    and found: "findById (posts d) (objectId i) = Some event"
    and allowed: "userId event = u_id u \<or> isAdmin u"
    and some: "eventRegistrations d i \<noteq> []"
  shows "\<exists>hs rows.
           exportRegistrations d u i = Json 200 (hs, rows)
         \<and> length rows
             = (\<Sum>r\<leftarrow>eventRegistrations d i.
                  if ptype event = ''culturalEvent'' \<and> r_selectedTickets r \<noteq> []
                  then length (r_selectedTickets r) else 1)
         \<and> (ptype event \<noteq> ''culturalEvent'' \<longrightarrow> length rows = length (eventRegistrations d i))
         \<and> (ptype event = ''culturalEvent''
              \<and> (\<forall>r \<in> set (eventRegistrations d i). r_selectedTickets r \<noteq> [])
              \<longrightarrow> length rows = ticketPairs (eventRegistrations d i))
         \<and> set hs = set fixedHeaders
                     \<union> (\<Union>r \<in> set (eventRegistrations d i). fst ` set (r_customFields r))"
proof -
  let ?regs = "eventRegistrations d i"
  have "exportRegistrations d u i
          = Json 200 (exportHeaders ?regs, flattenedData (ptype event) ?regs)"
    using valid found allowed some
    by (auto simp: exportRegistrations_def eventRegistrations_def Let_def)
  then show ?thesis
    using length_flattenedData [of "ptype event" ?regs] rows_plain [of "ptype event" ?regs]
      rows_all_ticketed [of ?regs] set_exportHeaders [of ?regs]
    by auto
qed

theorem export_rows_and_headers_witness:
  "eventRegistrations culturalDb culturalId = [walkIn]
   \<and> (\<exists>hs rows. exportRegistrations culturalDb owner culturalId = Json 200 (hs, rows)
         \<and> length rows = 1 \<and> set hs = set fixedHeaders \<union> {''College''})"
proof -
  have regs: "eventRegistrations culturalDb culturalId = [walkIn]"
    by (simp add: eventRegistrations_def culturalId_value culturalDb_def walkIn_def)
  have allowed: "userId culturalPost = u_id owner \<or> isAdmin owner"
    by (simp add: culturalPost_def owner_def)
  have some: "eventRegistrations culturalDb culturalId \<noteq> []"
    by (simp add: regs)
  from export_rows_and_headers [OF culturalId_valid culturalDb_found allowed some]
  show ?thesis
    by (auto simp: regs walkIn_def culturalPost_def)
qed

text \<open>
  C4 as stated fails: a cultural event whose only registration selected no ticket is
  exported as one row, while it has no (registration, ticket) pair.
\<close>

theorem export_rows_counterexample:
  "rowCount (exportRegistrations culturalDb owner culturalId) = Some 1
   \<and> ptype culturalPost = ''culturalEvent''
   \<and> ticketPairs (eventRegistrations culturalDb culturalId) = 0"
  using culturalId_valid culturalDb_found
  by (simp add: rowCount_def exportRegistrations_def eventRegistrations_def culturalId_value
        culturalDb_def walkIn_def culturalPost_def owner_def ticketPairs_def flattenedData_def
        registrationRows_def Let_def)

subsection \<open>Field cleanup on create and update\<close>





















text \<open>
  The update handler keeps the ticket options of a cultural event that becomes an event;
  the create handler clears them for an event.
\<close>

lemma update_to_event_keeps_ticketOptions:
  "statusOf (fst (updatePost sampleEnv [culturalDoc] owner confessionDocId toEventBody)) = 200
   \<and> responseField (fst (updatePost sampleEnv [culturalDoc] owner confessionDocId toEventBody))
        ''type'' = Some (JStr ''event'')
   \<and> responseField (fst (updatePost sampleEnv [culturalDoc] owner confessionDocId toEventBody))
        ''ticketOptions''
       = Some (JArr [JObj [(''ticketType'', JStr ''General''), (''ticketPrice'', JNum 100)]])"
  by code_simp

subsection \<open>Available dates of a cultural event\<close>












subsection \<open>The showcase submission deadline\<close>

text \<open>
  C8. A showcase creation whose request time is after the deadline is answered with
  status 400 and the stored posts are unchanged; at or before the deadline no creation is
  answered with the deadline's rejection.
\<close>

theorem showcase_deadline:
  "(b_type body = Some ''showcase'' \<and> currentTime e > SUBMISSION_DEADLINE e
      \<longrightarrow> (\<exists>msg. createPost e u body docs = (Message 400 msg, docs)))
   \<and> (currentTime e \<le> SUBMISSION_DEADLINE e
      \<longrightarrow> fst (createPost e u body docs) \<noteq> Message 400 deadlineMessage)"
  by (simp add: createPost_def Let_def validatePostType_def validTypes_def deadlineMessage_def)

theorem showcase_deadline_witness:
  "currentTime lateEnv > SUBMISSION_DEADLINE lateEnv
   \<and> createPost lateEnv owner showcaseBody [] = (Message 400 deadlineMessage, [])
   \<and> currentTime sampleEnv \<le> SUBMISSION_DEADLINE sampleEnv
   \<and> statusOf (fst (createPost sampleEnv owner showcaseBody [])) = 201"
proof -
  have late: "currentTime lateEnv > SUBMISSION_DEADLINE lateEnv"
    and early: "currentTime sampleEnv \<le> SUBMISSION_DEADLINE sampleEnv"
    and showcase: "b_type showcaseBody = Some ''showcase''"
    and accepted: "statusOf (fst (createPost sampleEnv owner showcaseBody [])) = 201"
    by code_simp+
  have "\<not> falsy (b_type showcaseBody)" "\<not> falsy (b_title showcaseBody)"
    "\<not> falsy (b_content showcaseBody)" "validatePostType (the (b_type showcaseBody))"
    "validateText (b_title showcaseBody) 1 100" "validateText (b_content showcaseBody) 1 1000"
    by code_simp+
  then have rejected: "createPost lateEnv owner showcaseBody [] = (Message 400 deadlineMessage, [])"
    using late showcase by (simp add: createPost_def)
  from showcase_deadline [of showcaseBody lateEnv owner "[]"]
    showcase_deadline [of showcaseBody sampleEnv owner "[]"] late early showcase rejected accepted
  show ?thesis by simp
qed

subsection \<open>The admin route cascades to notifications\<close>

lemma admin_delete_removes_notification:
  "adminDeletePost registeredDb moderator eventId
     = (Message 200 ''Post and associated data removed'',
        \<lparr>posts = [showcasePost], registrations = [], notifications = [],
         users = [owner, visitor]\<rparr>)"
  using eventId_valid registeredDb_found
  by (simp add: adminDeletePost_def eventId_value registeredDb_def eventDb_def eventPost_def
        showcasePost_def moderator_def visitorRegistration_def registrationNotification_def
        Let_def)

end
